theory Spec2Isabelle
  imports Complex_Main
begin

section \<open>KDSphere: nearest-neighbour and radius queries on the sphere\<close>

text \<open>
  The development follows \<^verbatim>\<open>kdsphere/kdsphere.py\<close>. The class \<^verbatim>\<open>KDSphere\<close> embeds
  (lon, lat) pairs on the unit sphere and delegates every search to scipy's Euclidean
  \<^verbatim>\<open>cKDTree\<close>.

  Numbers. A float64 is modelled by an exact real or one of the three special values
  +inf, -inf and NaN. Rounding and signed zeros are not modelled, so nothing below speaks
  about roundoff; what is kept is where numpy leaves the reals (division by zero, arcsin
  outside [-1, 1]), which numpy reports by a warning and a special value, not an exception.
\<close>

subsection \<open>numpy floats\<close>

datatype npfloat = Fin real | PInf | NInf | NaN

fun fl_mul :: "npfloat \<Rightarrow> npfloat \<Rightarrow> npfloat" where
  "fl_mul NaN y = NaN"
| "fl_mul x NaN = NaN"
| "fl_mul (Fin a) (Fin b) = Fin (a * b)"
| "fl_mul (Fin a) PInf = (if a = 0 then NaN else if 0 < a then PInf else NInf)"
| "fl_mul (Fin a) NInf = (if a = 0 then NaN else if 0 < a then NInf else PInf)"
| "fl_mul PInf (Fin b) = (if b = 0 then NaN else if 0 < b then PInf else NInf)"
| "fl_mul NInf (Fin b) = (if b = 0 then NaN else if 0 < b then NInf else PInf)"
| "fl_mul PInf PInf = PInf"
| "fl_mul PInf NInf = NInf"
| "fl_mul NInf PInf = NInf"
| "fl_mul NInf NInf = PInf"

fun fl_div :: "npfloat \<Rightarrow> npfloat \<Rightarrow> npfloat" where
  "fl_div NaN y = NaN"
| "fl_div x NaN = NaN"
| "fl_div (Fin a) (Fin b) =
     (if b = 0 then (if a = 0 then NaN else if 0 < a then PInf else NInf)
      else Fin (a / b))"
| "fl_div (Fin a) PInf = Fin 0"
| "fl_div (Fin a) NInf = Fin 0"
| "fl_div PInf (Fin b) = (if 0 \<le> b then PInf else NInf)"
| "fl_div NInf (Fin b) = (if 0 \<le> b then NInf else PInf)"
| "fl_div PInf PInf = NaN"
| "fl_div PInf NInf = NaN"
| "fl_div NInf PInf = NaN"
| "fl_div NInf NInf = NaN"

text \<open>\<^verbatim>\<open>np.arcsin\<close>: real on [-1, 1], NaN everywhere else (with a RuntimeWarning).\<close>

fun np_arcsin :: "npfloat \<Rightarrow> npfloat" where
  "np_arcsin (Fin x) = (if -1 \<le> x \<and> x \<le> 1 then Fin (arcsin x) else NaN)"
| "np_arcsin PInf = NaN"
| "np_arcsin NInf = NaN"
| "np_arcsin NaN = NaN"

text \<open>The comparison \<^verbatim>\<open><=\<close> of floats: false as soon as one side is NaN.\<close>

fun fl_le :: "npfloat \<Rightarrow> npfloat \<Rightarrow> bool" where
  "fl_le NaN y = False"
| "fl_le x NaN = False"
| "fl_le NInf y = True"
| "fl_le x PInf = True"
| "fl_le PInf y = False"
| "fl_le x NInf = False"
| "fl_le (Fin a) (Fin b) = (a \<le> b)"



text \<open>A chord distance that is a real number between 0 and the diameter 2 r.\<close>

fun within_diameter :: "real \<Rightarrow> npfloat \<Rightarrow> bool" where
  "within_diameter r (Fin c) = (0 \<le> c \<and> c \<le> 2 * r)"
| "within_diameter r PInf = False"
| "within_diameter r NInf = False"
| "within_diameter r NaN = False"

text \<open>\<^verbatim>\<open>xs[0] <= xs[1] <= ...\<close> for a row of floats.\<close>

fun ascending :: "npfloat list \<Rightarrow> bool" where
  "ascending [] = True"
| "ascending [x] = True"
| "ascending (x # y # ys) = (fl_le x y \<and> ascending (y # ys))"

subsection \<open>Inputs and the embedding\<close>

type_synonym angular = "real \<times> real"
type_synonym point3 = "real \<times> real \<times> real"

text \<open>
  What the methods receive as \<^verbatim>\<open>data\<close>: an array of shape (2,), one bare (lon, lat) pair,
  or an array of shape (M, 2), a sequence of M pairs (M = 0 included).
\<close>

datatype array_like = Point angular | Points "angular list"

datatype error = InvalidInput | IndexError | ValueError

text \<open>\<^verbatim>\<open>np.atleast_2d\<close>: shape (2,) becomes shape (1, 2); shape (M, 2) is returned as it is.\<close>

fun atleast_2d :: "array_like \<Rightarrow> array_like" where
  "atleast_2d (Point p) = Points [p]"
| "atleast_2d (Points ps) = Points ps"

text \<open>\<^verbatim>\<open>.shape[0]\<close> of an array of pairs.\<close>

fun shape0 :: "array_like \<Rightarrow> nat" where
  "shape0 (Point p) = 2"
| "shape0 (Points ps) = length ps"

text \<open>
  Modelled from the spec: \<^verbatim>\<open>spherical_to_cartesian\<close> of \<^verbatim>\<open>kdsphere/utils.py\<close>, which is not
  among the sources. Section 4.1: x = cos(lat) cos(lon), y = cos(lat) sin(lon), z = sin(lat),
  the radius is 1 for every point; section 7: an array that is not two-dimensional fails
  with InvalidInput at the point of embedding. The function returns the embedded points
  together with the per-point radii, an array of shape (N,) for N points; a caller with
  \<^verbatim>\<open>return_radius=False\<close> takes the first component.
\<close>

fun embed :: "angular \<Rightarrow> point3" where
  "embed (lon, lat) = (cos lat * cos lon, cos lat * sin lon, sin lat)"

fun spherical_to_cartesian :: "array_like \<Rightarrow> error + (point3 list \<times> real list)" where
  "spherical_to_cartesian (Point p) = Inl InvalidInput"
| "spherical_to_cartesian (Points ps) = Inr (map embed ps, map (\<lambda>p. 1) ps)"

subsection \<open>The Euclidean structure\<close>

text \<open>
  scipy's \<^verbatim>\<open>cKDTree\<close> is a collaborator of the class, not part of it: the class only calls
  its constructor and three of its methods. They are the fields of a record, and every
  method of \<^verbatim>\<open>KDSphere\<close> takes that record as its first argument. \<^verbatim>\<open>query\<close> is one call for
  all query points; it returns the pair of arrays (distances, indices), or raises. The ball
  queries of scipy are vectorised over the query points: row q of a result answers query
  point q, which is how the per-point function is used below. Keyword arguments handed
  through unchanged (\<^verbatim>\<open>**kwargs\<close>) are left out.
\<close>

record 't euclid =
  tree_build :: "point3 list \<Rightarrow> 't"
  tree_query ::
    "'t \<Rightarrow> point3 list \<Rightarrow> nat \<Rightarrow> real \<Rightarrow> error + (npfloat list list \<times> nat list list)"
  tree_query_ball_point :: "'t \<Rightarrow> point3 \<Rightarrow> real \<Rightarrow> nat list"
  tree_query_ball_tree :: "'t \<Rightarrow> 't \<Rightarrow> real \<Rightarrow> nat list list"

subsection \<open>The class\<close>

record 't kdsphere =
  data :: array_like
  data3d :: "point3 list"
  kdtree :: 't

text \<open>\<^verbatim>\<open>KDSphere.__init__\<close> (the field \<^verbatim>\<open>kdtree_\<close> is \<open>kdtree\<close> here).\<close>

definition init :: "'t euclid \<Rightarrow> array_like \<Rightarrow> error + 't kdsphere" where
  "init E d =
     (case spherical_to_cartesian d of
        Inl e \<Rightarrow> Inl e
      | Inr (d3, rs) \<Rightarrow> Inr \<lparr>data = d, data3d = d3, kdtree = tree_build E d3\<rparr>)"

text \<open>Line 45 of the source, for one entry: \<^verbatim>\<open>2 * np.arcsin(dist_3d * 0.5 / r)\<close>.\<close>

definition dist_2d_of :: "npfloat \<Rightarrow> real \<Rightarrow> npfloat" where
  "dist_2d_of d r = fl_mul (Fin 2) (np_arcsin (fl_div (fl_mul d (Fin 0.5)) (Fin r)))"

text \<open>
  The arrays of line 45. For M query points \<^verbatim>\<open>cKDTree.query\<close> returns arrays of shape
  (M,) when k = 1 and of shape (M, k) otherwise; both are kept as M rows here, a row of
  one entry standing for an entry of the (M,) array. \<^verbatim>\<open>r\<close> has shape (M,). numpy aligns the
  last axes of the two operands of \<^verbatim>\<open>/\<close>:
  \<^item> (M,) by (M,): entry q is divided by \<^verbatim>\<open>r[q]\<close>;
  \<^item> (M, k) by (1,): every entry is divided by \<^verbatim>\<open>r[0]\<close>;
  \<^item> (M, k) by (M,) with k = M: entry [q][j] is divided by \<^verbatim>\<open>r[j]\<close>;
  \<^item> any other pair of shapes does not broadcast, and numpy raises ValueError.
\<close>

definition broadcasts :: "nat \<Rightarrow> nat \<Rightarrow> bool" where
  "broadcasts M k = (k = 1 \<or> M = 1 \<or> k = M)"

definition broadcast_dist_2d ::
  "nat \<Rightarrow> npfloat list list \<Rightarrow> real list \<Rightarrow> error + npfloat list list" where
  "broadcast_dist_2d k dist_3d r =
     (if k = 1 then Inr (map2 (\<lambda>row rq. map (\<lambda>c. dist_2d_of c rq) row) dist_3d r)
      else if length r = 1 then Inr (map (map (\<lambda>c. dist_2d_of c (r ! 0))) dist_3d)
      else if k = length r then Inr (map (\<lambda>row. map2 dist_2d_of row r) dist_3d)
      else Inl ValueError)"

text \<open>
  \<^verbatim>\<open>KDSphere.query\<close>, lines 43 to 46: the embedding, the search, the conversion. An
  exception of any of the three steps ends the call.
\<close>

definition query ::
  "'t euclid \<Rightarrow> 't kdsphere \<Rightarrow> array_like \<Rightarrow> nat \<Rightarrow> real \<Rightarrow>
     error + (npfloat list list \<times> nat list list)" where
  "query E self d k eps =
     (case spherical_to_cartesian d of
        Inl e \<Rightarrow> Inl e
      | Inr (data_3d, r) \<Rightarrow>
          (case tree_query E (kdtree self) data_3d k eps of
             Inl e \<Rightarrow> Inl e
           | Inr (dist_3d, ind) \<Rightarrow>
               (case broadcast_dist_2d k dist_3d r of
                  Inl e \<Rightarrow> Inl e
                | Inr dist_2d \<Rightarrow> Inr (dist_2d, ind))))"

text \<open>
  What \<^verbatim>\<open>query_ball_tree\<close> may receive as \<^verbatim>\<open>data\<close>: a \<^verbatim>\<open>cKDTree\<close>, a \<^verbatim>\<open>KDTree\<close>, another
  \<^verbatim>\<open>KDSphere\<close>, or anything else, which is taken as an array of points.
\<close>

datatype 't other =
    OtherCKDTree 't
  | OtherKDTree 't
  | OtherKDSphere "'t kdsphere"
  | OtherArray array_like

definition query_ball_tree ::
  "'t euclid \<Rightarrow> 't kdsphere \<Rightarrow> 't other \<Rightarrow> real \<Rightarrow> error + nat list list" where
  "query_ball_tree E self d r =
     (case (case d of
              OtherCKDTree t \<Rightarrow> Inr t
            | OtherKDTree t \<Rightarrow> Inr t
            | OtherKDSphere s \<Rightarrow> Inr (kdtree s)
            | OtherArray a \<Rightarrow>
                (case init E a of Inl e \<Rightarrow> Inl e | Inr s \<Rightarrow> Inr (kdtree s))) of
        Inl e \<Rightarrow> Inl e
      | Inr other_kdtree \<Rightarrow> Inr (tree_query_ball_tree E (kdtree self) other_kdtree r))"

text \<open>
  \<^verbatim>\<open>query_ball_point\<close> returns either one list of indices (\<^verbatim>\<open>results[0]\<close>) or the list of
  lists \<^verbatim>\<open>results\<close>.
\<close>

datatype matches = Flat "nat list" | Nested "nat list list"

definition query_ball_point ::
  "'t euclid \<Rightarrow> 't kdsphere \<Rightarrow> array_like \<Rightarrow> real \<Rightarrow> error + matches" where
  "query_ball_point E self d r =
     (case spherical_to_cartesian (atleast_2d d) of
        Inl e \<Rightarrow> Inl e
      | Inr (data_3d, rs) \<Rightarrow>
          let results = map (\<lambda>x. tree_query_ball_point E (kdtree self) x r) data_3d
          in if shape0 (atleast_2d d) = 1
             then (case results of [] \<Rightarrow> Inl IndexError | x # xs \<Rightarrow> Inr (Flat x))
             else Inr (Nested results))"

subsection \<open>The methods as statements on the instance\<close>

text \<open>
  To speak about what a call does to the instance, the bodies are written once more as
  sequences of statements. A statement takes the instance and returns its value, or the
  exception it raises, together with the instance it leaves behind. The source has four
  kinds of statement: the call of a function that is handed no reference to the instance
  (\<open>call\<close>), the read of an attribute \<^verbatim>\<open>self.f\<close> (\<open>attr\<close>), the assignment
  \<^verbatim>\<open>self.f = v\<close> (\<open>assign\<close>) and \<^verbatim>\<open>return\<close> (\<open>ret\<close>); \<open>seq\<close> runs one statement after
  another and stops at an exception. The methods of the Euclidean structure are taken to
  read the tree only, as section 5 of the specification says of it.
\<close>

type_synonym ('s, 'a) stmt = "'s \<Rightarrow> (error + 'a) \<times> 's"

definition ret :: "'a \<Rightarrow> ('s, 'a) stmt" where
  "ret x = (\<lambda>s. (Inr x, s))"

definition call :: "error + 'a \<Rightarrow> ('s, 'a) stmt" where
  "call r = (\<lambda>s. (r, s))"

definition attr :: "('s \<Rightarrow> 'a) \<Rightarrow> ('s, 'a) stmt" where
  "attr f = (\<lambda>s. (Inr (f s), s))"

definition assign :: "('s \<Rightarrow> 's) \<Rightarrow> ('s, unit) stmt" where
  "assign upd = (\<lambda>s. (Inr (), upd s))"

definition seq :: "('s, 'a) stmt \<Rightarrow> ('a \<Rightarrow> ('s, 'b) stmt) \<Rightarrow> ('s, 'b) stmt" where
  "seq m f = (\<lambda>s. case m s of (Inl e, s1) \<Rightarrow> (Inl e, s1) | (Inr x, s1) \<Rightarrow> f x s1)"

text \<open>\<^verbatim>\<open>__init__\<close>, lines 18 to 20: three assignments.\<close>

definition init_stmt :: "'t euclid \<Rightarrow> array_like \<Rightarrow> ('t kdsphere, unit) stmt" where
  "init_stmt E d =
     seq (assign (\<lambda>s. s\<lparr>data := d\<rparr>)) (\<lambda>u.
     seq (attr data) (\<lambda>a.
     seq (call (spherical_to_cartesian a)) (\<lambda>(d3, rs).
     seq (assign (\<lambda>s. s\<lparr>data3d := d3\<rparr>)) (\<lambda>u.
     seq (attr data3d) (\<lambda>d3.
     assign (\<lambda>s. s\<lparr>kdtree := tree_build E d3\<rparr>))))))"

text \<open>\<^verbatim>\<open>query\<close>, lines 43 to 46.\<close>

definition query_stmt ::
  "'t euclid \<Rightarrow> array_like \<Rightarrow> nat \<Rightarrow> real \<Rightarrow>
     ('t kdsphere, npfloat list list \<times> nat list list) stmt" where
  "query_stmt E d k eps =
     seq (call (spherical_to_cartesian d)) (\<lambda>(data_3d, r).
     seq (attr kdtree) (\<lambda>t.
     seq (call (tree_query E t data_3d k eps)) (\<lambda>(dist_3d, ind).
     seq (call (broadcast_dist_2d k dist_3d r)) (\<lambda>dist_2d.
     ret (dist_2d, ind)))))"

text \<open>\<^verbatim>\<open>query_ball_tree\<close>, lines 68 to 76.\<close>

definition query_ball_tree_stmt ::
  "'t euclid \<Rightarrow> 't other \<Rightarrow> real \<Rightarrow> ('t kdsphere, nat list list) stmt" where
  "query_ball_tree_stmt E d r =
     seq (case d of
            OtherCKDTree t \<Rightarrow> ret t
          | OtherKDTree t \<Rightarrow> ret t
          | OtherKDSphere s \<Rightarrow> ret (kdtree s)
          | OtherArray a \<Rightarrow> seq (call (init E a)) (\<lambda>s. ret (kdtree s))) (\<lambda>other_kdtree.
     seq (attr kdtree) (\<lambda>t.
     ret (tree_query_ball_tree E t other_kdtree r)))"

text \<open>\<^verbatim>\<open>query_ball_point\<close>, lines 101 to 109.\<close>

definition query_ball_point_stmt ::
  "'t euclid \<Rightarrow> array_like \<Rightarrow> real \<Rightarrow> ('t kdsphere, matches) stmt" where
  "query_ball_point_stmt E d r =
     seq (call (spherical_to_cartesian (atleast_2d d))) (\<lambda>(data_3d, rs).
     seq (attr kdtree) (\<lambda>t.
     seq (ret (map (\<lambda>x. tree_query_ball_point E t x r) data_3d)) (\<lambda>results.
     if shape0 (atleast_2d d) = 1
     then (case results of [] \<Rightarrow> call (Inl IndexError) | x # xs \<Rightarrow> ret (Flat x))
     else ret (Nested results))))"

text \<open>A call of one of the three query methods, and a sequence of such calls.\<close>

datatype 't call =
    CallQuery array_like nat real
  | CallQueryBallTree "'t other" real
  | CallQueryBallPoint array_like real

datatype returned =
    RetQuery "error + (npfloat list list \<times> nat list list)"
  | RetBallTree "error + nat list list"
  | RetBallPoint "error + matches"

fun exec :: "'t euclid \<Rightarrow> 't call \<Rightarrow> 't kdsphere \<Rightarrow> returned \<times> 't kdsphere" where
  "exec E (CallQuery d k eps) s =
     (case query_stmt E d k eps s of (out, s1) \<Rightarrow> (RetQuery out, s1))"
| "exec E (CallQueryBallTree d r) s =
     (case query_ball_tree_stmt E d r s of (out, s1) \<Rightarrow> (RetBallTree out, s1))"
| "exec E (CallQueryBallPoint d r) s =
     (case query_ball_point_stmt E d r s of (out, s1) \<Rightarrow> (RetBallPoint out, s1))"

fun run :: "'t euclid \<Rightarrow> 't call list \<Rightarrow> 't kdsphere \<Rightarrow> returned list \<times> 't kdsphere" where
  "run E [] s = ([], s)"
| "run E (c # cs) s =
     (case exec E c s of (out, s1) \<Rightarrow>
        (case run E cs s1 of (outs, s2) \<Rightarrow> (out # outs, s2)))"

subsection \<open>The conversions of the specification\<close>


text \<open>
  Sections 4.4 and 4.5, in their words: the angular radius r is converted to the
  unit-sphere chord radius 2 sin(r / 2), and the chord radius is what the Euclidean
  structure is asked for.
\<close>

definition chord_radius :: "real \<Rightarrow> real" where
  "chord_radius r = 2 * sin (r / 2)"

definition query_ball_point_spec ::
  "'t euclid \<Rightarrow> 't kdsphere \<Rightarrow> array_like \<Rightarrow> real \<Rightarrow> error + matches" where
  "query_ball_point_spec E self d r = query_ball_point E self d (chord_radius r)"

definition query_ball_tree_spec ::
  "'t euclid \<Rightarrow> 't kdsphere \<Rightarrow> 't other \<Rightarrow> real \<Rightarrow> error + nat list list" where
  "query_ball_tree_spec E self d r = query_ball_tree E self d (chord_radius r)"

subsection \<open>A reference Euclidean structure\<close>

text \<open>
  Exhaustive search over the stored points, with the conventions scipy documents for
  \<^verbatim>\<open>cKDTree\<close>: \<^verbatim>\<open>query\<close> raises ValueError for k = 0; for k \<ge> 1 it returns the k nearest
  points in ascending distance and reports a missing neighbour by an infinite distance
  and the index n (the number of stored points); the ball queries return the indices of
  the points at distance at most r. The search is exact, which meets the guarantee of
  every \<^verbatim>\<open>eps\<close> \<ge> 0.
\<close>

fun dist3 :: "point3 \<Rightarrow> point3 \<Rightarrow> real" where
  "dist3 (x1, y1, z1) (x2, y2, z2) = sqrt ((x1 - x2)\<^sup>2 + (y1 - y2)\<^sup>2 + (z1 - z2)\<^sup>2)"

definition nearest :: "point3 list \<Rightarrow> point3 \<Rightarrow> nat \<Rightarrow> (real \<times> nat) list" where
  "nearest t x k = take k (sort_key fst (zip (map (dist3 x) t) [0..<length t]))"

definition exhaustive_row :: "point3 list \<Rightarrow> point3 \<Rightarrow> nat \<Rightarrow> (npfloat \<times> nat) list" where
  "exhaustive_row t x k =
     map (\<lambda>(c, i). (Fin c, i)) (nearest t x k)
       @ replicate (k - length (nearest t x k)) (PInf, length t)"

definition exhaustive_query ::
  "point3 list \<Rightarrow> point3 list \<Rightarrow> nat \<Rightarrow> real \<Rightarrow>
     error + (npfloat list list \<times> nat list list)" where
  "exhaustive_query t xs k eps =
     (if k = 0 then Inl ValueError
      else Inr (map (\<lambda>x. map fst (exhaustive_row t x k)) xs,
                map (\<lambda>x. map snd (exhaustive_row t x k)) xs))"

definition exhaustive_ball_point :: "point3 list \<Rightarrow> point3 \<Rightarrow> real \<Rightarrow> nat list" where
  "exhaustive_ball_point t x r =
     map snd (filter (\<lambda>(c, i). c \<le> r) (zip (map (dist3 x) t) [0..<length t]))"

definition exhaustive_ball_tree :: "point3 list \<Rightarrow> point3 list \<Rightarrow> real \<Rightarrow> nat list list" where
  "exhaustive_ball_tree t u r = map (\<lambda>x. exhaustive_ball_point u x r) t"

definition exhaustive :: "point3 list euclid" where
  "exhaustive =
     \<lparr>tree_build = (\<lambda>ps. ps),
      tree_query = exhaustive_query,
      tree_query_ball_point = exhaustive_ball_point,
      tree_query_ball_tree = exhaustive_ball_tree\<rparr>"

text \<open>
  The great-circle separation of two angular points: the angle of the chord between their
  embeddings (section 8 of the specification).
\<close>

definition great_circle :: "angular \<Rightarrow> angular \<Rightarrow> real" where
  "great_circle p q = 2 * arcsin (dist3 (embed p) (embed q) / 2)"

text \<open>
  The index that \<open>init\<close> builds over the single point lon = 0, lat = 0, the one it
  builds over no point, and the one it builds over that point and its antipode (lemmas
  \<open>init_origin\<close>, \<open>init_empty\<close> and \<open>init_antipodes\<close> below).
\<close>

definition origin_index :: "point3 list kdsphere" where
  "origin_index = \<lparr>data = Points [(0, 0)], data3d = [(1, 0, 0)], kdtree = [(1, 0, 0)]\<rparr>"

definition empty_index :: "point3 list kdsphere" where
  "empty_index = \<lparr>data = Points [], data3d = [], kdtree = []\<rparr>"

definition antipodes_index :: "point3 list kdsphere" where
  "antipodes_index =
     \<lparr>data = Points [(0, 0), (pi, 0)],
      data3d = [(1, 0, 0), (-1, 0, 0)],
      kdtree = [(1, 0, 0), (-1, 0, 0)]\<rparr>"

text \<open>An array of M rows of k entries.\<close>

definition shaped :: "nat \<Rightarrow> nat \<Rightarrow> 'a list list \<Rightarrow> bool" where
  "shaped M k rows = (length rows = M \<and> list_all (\<lambda>row. length row = k) rows)"

section \<open>Auxiliary facts\<close>

lemma s2c_lengths:
  "spherical_to_cartesian d = Inr (xs, rs) \<Longrightarrow> length rs = length xs"
  by (cases d) auto

lemma s2c_radius:
  "spherical_to_cartesian d = Inr (xs, rs) \<Longrightarrow> q < length xs \<Longrightarrow> rs ! q = 1"
  by (cases d) auto

lemma s2c_radii:
  "spherical_to_cartesian d = Inr (xs, rs) \<Longrightarrow> rs = replicate (length xs) 1"
  by (cases d) (auto simp: map_replicate_const)

lemma map2_replicate:
  "length xs = n \<Longrightarrow> map2 f xs (replicate n a) = map (\<lambda>x. f x a) xs"
  by (induction xs arbitrary: n) auto

text \<open>With every radius 1, each way of pairing entries with radii gives the same array.\<close>

lemma broadcast_unit_radii:
  assumes "shaped M k dist_3d" and "broadcasts M k"
  shows "broadcast_dist_2d k dist_3d (replicate M 1) =
     Inr (map (map (\<lambda>c. dist_2d_of c 1)) dist_3d)"
proof -
  have len: "length dist_3d = M" and rows: "\<And>row. row \<in> set dist_3d \<Longrightarrow> length row = k"
    using assms(1) by (auto simp: shaped_def list_all_iff)
  consider "k = 1" | "k \<noteq> 1" "M = 1" | "k \<noteq> 1" "M \<noteq> 1" "k = M"
    using assms(2) by (auto simp: broadcasts_def)
  then show ?thesis
  proof cases
    case 1
    then show ?thesis by (simp add: broadcast_dist_2d_def map2_replicate[OF len])
  next
    case 2
    then show ?thesis by (simp add: broadcast_dist_2d_def)
  next
    case 3
    have "map (\<lambda>row. map2 dist_2d_of row (replicate M 1)) dist_3d
        = map (map (\<lambda>c. dist_2d_of c 1)) dist_3d"
      using rows 3 by (intro map_cong refl map2_replicate) simp
    with 3 show ?thesis by (simp add: broadcast_dist_2d_def)
  qed
qed

lemma broadcast_mismatch:
  "\<not> broadcasts (length r) k \<Longrightarrow> broadcast_dist_2d k dist_3d r = Inl ValueError"
  by (auto simp: broadcast_dist_2d_def broadcasts_def)

lemma query_result:
  assumes "spherical_to_cartesian d = Inr (xs, rs)"
    and "tree_query E (kdtree self) xs k eps = Inr (dist_3d, ind)"
    and "shaped (length xs) k dist_3d"
  shows "query E self d k eps =
     (if broadcasts (length xs) k
      then Inr (map (map (\<lambda>c. dist_2d_of c 1)) dist_3d, ind)
      else Inl ValueError)"
proof -
  have rs: "rs = replicate (length xs) 1" by (rule s2c_radii[OF assms(1)])
  show ?thesis
  proof (cases "broadcasts (length xs) k")
    case True
    with assms(1,2) broadcast_unit_radii[OF assms(3) True] show ?thesis
      by (simp add: query_def rs)
  next
    case False
    then have "broadcast_dist_2d k dist_3d rs = Inl ValueError"
      by (intro broadcast_mismatch) (simp add: rs)
    with assms(1,2) False show ?thesis by (simp add: query_def)
  qed
qed

lemma query_entry:
  assumes "spherical_to_cartesian d = Inr (xs, rs)"
    and "tree_query E (kdtree self) xs k eps = Inr (dist_3d, ind)"
    and "shaped (length xs) k dist_3d"
    and "query E self d k eps = Inr (dist_2d, ind')"
    and "q < length xs" and "j < k"
  shows "dist_2d ! q ! j = dist_2d_of (dist_3d ! q ! j) (rs ! q)" and "ind' = ind"
    and "dist_2d ! q = map (\<lambda>c. dist_2d_of c (rs ! q)) (dist_3d ! q)"
proof -
  have r: "rs ! q = 1" by (rule s2c_radius[OF assms(1,5)])
  have len: "length dist_3d = length xs" and row: "length (dist_3d ! q) = k"
    using assms(3,5) by (auto simp: shaped_def list_all_length)
  have eq: "dist_2d = map (map (\<lambda>c. dist_2d_of c 1)) dist_3d" and "ind' = ind"
    using query_result[OF assms(1,2,3)] assms(4) by (auto split: if_splits)
  then show "ind' = ind" by simp
  show "dist_2d ! q = map (\<lambda>c. dist_2d_of c (rs ! q)) (dist_3d ! q)"
    using eq len assms(5) r by simp
  then show "dist_2d ! q ! j = dist_2d_of (dist_3d ! q ! j) (rs ! q)"
    using row assms(6) by simp
qed






lemma ascending_dist_2d:
  "0 < r \<Longrightarrow> list_all (within_diameter r) row \<Longrightarrow> ascending row \<Longrightarrow>
   ascending (map (\<lambda>c. dist_2d_of c r) row)"
proof (induction row rule: ascending.induct)
  case (3 x y ys)
  then obtain a b where ab: "x = Fin a" "y = Fin b" "0 \<le> a" "a \<le> 2 * r" "0 \<le> b" "b \<le> 2 * r"
    by (cases x; cases y) auto
  with 3 have "a \<le> b" by simp
  with ab \<open>0 < r\<close> have "arcsin (a / (2 * r)) \<le> arcsin (b / (2 * r))"
    by (intro arcsin_le_arcsin) (auto simp: field_simps)
  with 3 ab show ?case by (simp add: dist_2d_of_def field_simps)
qed simp_all

lemma query_row_ascending:
  assumes "spherical_to_cartesian d = Inr (xs, rs)"
    and "tree_query E (kdtree self) xs k eps = Inr (dist_3d, ind)"
    and "shaped (length xs) k dist_3d"
    and "query E self d k eps = Inr (dist_2d, ind')"
    and "q < length xs"
    and "list_all (within_diameter (rs ! q)) (dist_3d ! q)"
    and "ascending (dist_3d ! q)"
  shows "ascending (dist_2d ! q)"
proof -
  have r: "0 < rs ! q" using s2c_radius[OF assms(1,5)] by simp
  have "dist_2d ! q = map (\<lambda>c. dist_2d_of c (rs ! q)) (dist_3d ! q)"
  proof (cases "0 < k")
    case True
    then show ?thesis by (rule query_entry(3)[OF assms(1,2,3,4,5)])
  next
    case False
    then have k: "k = 0" by simp
    have len: "length dist_3d = length xs" and row: "length (dist_3d ! q) = 0"
      using assms(3,5) k by (auto simp: shaped_def list_all_length)
    have "dist_2d = map (map (\<lambda>c. dist_2d_of c 1)) dist_3d"
      using query_result[OF assms(1,2,3)] assms(4) by (auto split: if_splits)
    then show ?thesis using len assms(5) row by simp
  qed
  then show ?thesis using ascending_dist_2d[OF r assms(6,7)] by simp
qed

lemma exhaustive_simps:
  "tree_build exhaustive = (\<lambda>ps. ps)"
  "tree_query exhaustive = exhaustive_query"
  "tree_query_ball_point exhaustive = exhaustive_ball_point"
  "tree_query_ball_tree exhaustive = exhaustive_ball_tree"
  by (simp_all add: exhaustive_def)

lemma origin_simps:
  "data origin_index = Points [(0, 0)]"
  "data3d origin_index = [(1, 0, 0)]"
  "kdtree origin_index = [(1, 0, 0)]"
  by (simp_all add: origin_index_def)

lemma empty_simps:
  "data empty_index = Points []"
  "data3d empty_index = []"
  "kdtree empty_index = []"
  by (simp_all add: empty_index_def)

lemma antipodes_simps:
  "data antipodes_index = Points [(0, 0), (pi, 0)]"
  "data3d antipodes_index = [(1, 0, 0), (-1, 0, 0)]"
  "kdtree antipodes_index = [(1, 0, 0), (-1, 0, 0)]"
  by (simp_all add: antipodes_index_def)

lemma init_origin: "init exhaustive (Points [(0, 0)]) = Inr origin_index"
  by (simp add: init_def origin_index_def exhaustive_simps)


lemma init_antipodes: "init exhaustive (Points [(0, 0), (pi, 0)]) = Inr antipodes_index"
  by (simp add: init_def antipodes_index_def exhaustive_simps)

lemmas exhaustive_eval =
  exhaustive_simps origin_simps empty_simps antipodes_simps exhaustive_query_def
  exhaustive_row_def nearest_def exhaustive_ball_point_def exhaustive_ball_tree_def

lemmas query_eval = query_def broadcast_dist_2d_def dist_2d_of_def

text \<open>
  The statements of each method, run on an instance: the value is the one of the method
  as a function of the instance, and the instance left behind is the instance given.
\<close>

lemmas stmt_defs = ret_def call_def attr_def assign_def seq_def

lemma init_stmt_run:
  "init_stmt E d s0 =
     (case spherical_to_cartesian d of
        Inl e \<Rightarrow> (Inl e, s0\<lparr>data := d\<rparr>)
      | Inr (d3, rs) \<Rightarrow> (Inr (), \<lparr>data = d, data3d = d3, kdtree = tree_build E d3\<rparr>))"
  by (cases s0) (simp add: init_stmt_def stmt_defs split: sum.splits prod.splits)

lemma init_stmt_init:
  "init_stmt E d s0 = (Inr (), s) \<Longrightarrow> init E d = Inr s"
  by (auto simp: init_stmt_run init_def split: sum.splits prod.splits)

lemma query_stmt_run: "query_stmt E d k eps s = (query E s d k eps, s)"
  by (simp add: query_stmt_def query_def stmt_defs split: sum.splits prod.splits)

lemma query_ball_tree_stmt_run:
  "query_ball_tree_stmt E d r s = (query_ball_tree E s d r, s)"
  by (cases d) (simp_all add: query_ball_tree_stmt_def query_ball_tree_def stmt_defs
        split: sum.splits prod.splits)

lemma query_ball_point_stmt_run:
  "query_ball_point_stmt E d r s = (query_ball_point E s d r, s)"
  by (simp add: query_ball_point_stmt_def query_ball_point_def stmt_defs Let_def
        split: sum.splits prod.splits list.splits)

lemma exec_instance: "snd (exec E c s) = s"
  by (cases c) (simp_all add: query_stmt_run query_ball_tree_stmt_run query_ball_point_stmt_run)

lemma run_instance: "snd (run E cs s) = s"
proof (induction cs)
  case Nil
  show ?case by simp
next
  case (Cons c cs)
  obtain out s1 where e: "exec E c s = (out, s1)" by (cases "exec E c s")
  then have "s1 = s" using exec_instance[of E c s] by simp
  with Cons e show ?case by (auto split: prod.splits)
qed

text \<open>An assignment is a statement that does change the instance.\<close>

lemma assign_changes_instance:
  "snd (assign (\<lambda>s. s\<lparr>data3d := []\<rparr>) antipodes_index) \<noteq> antipodes_index"
  by (simp add: assign_def antipodes_index_def)

text \<open>
  The reference structure on points of the unit sphere: chords lie between 0 and 2, and
  as long as k is at least 1 and does not exceed the number of stored points, the k chord
  distances it reports are real and in non-decreasing order, and so are the distances
  that \<open>query\<close> returns.
\<close>

lemma embed_unit:
  assumes "embed p = (x, y, z)" shows "x\<^sup>2 + y\<^sup>2 + z\<^sup>2 = 1"
proof -
  obtain lon lat where p: "p = (lon, lat)" by (cases p)
  have "(cos lat * cos lon)\<^sup>2 + (cos lat * sin lon)\<^sup>2 + (sin lat)\<^sup>2
      = (cos lat)\<^sup>2 * ((cos lon)\<^sup>2 + (sin lon)\<^sup>2) + (sin lat)\<^sup>2"
    by (simp add: power_mult_distrib distrib_left[symmetric])
  also have "\<dots> = 1" by simp
  finally have e: "(cos lat * cos lon)\<^sup>2 + (cos lat * sin lon)\<^sup>2 + (sin lat)\<^sup>2 = 1" .
  from assms p have xyz: "x = cos lat * cos lon" "y = cos lat * sin lon" "z = sin lat"
    by simp_all
  show ?thesis unfolding xyz by (rule e)
qed

lemma square_diff_bound: "(a - b)\<^sup>2 \<le> 2 * a\<^sup>2 + 2 * b\<^sup>2" for a b :: real
proof -
  have "0 \<le> (a + b)\<^sup>2" by simp
  then show ?thesis by (simp add: power2_eq_square algebra_simps)
qed

lemma chord_within_diameter: "within_diameter 1 (Fin (dist3 (embed p) (embed q)))"
proof -
  obtain x1 y1 z1 where p: "embed p = (x1, y1, z1)" by (metis prod_cases3)
  obtain x2 y2 z2 where q: "embed q = (x2, y2, z2)" by (metis prod_cases3)
  have "(x1 - x2)\<^sup>2 + (y1 - y2)\<^sup>2 + (z1 - z2)\<^sup>2
      \<le> 2 * (x1\<^sup>2 + y1\<^sup>2 + z1\<^sup>2) + 2 * (x2\<^sup>2 + y2\<^sup>2 + z2\<^sup>2)"
    using square_diff_bound[of x1 x2] square_diff_bound[of y1 y2] square_diff_bound[of z1 z2]
    by simp
  also have "\<dots> = 2\<^sup>2" using embed_unit[OF p] embed_unit[OF q] by simp
  finally have "dist3 (embed p) (embed q) \<le> 2"
    unfolding p q dist3.simps by (intro real_le_lsqrt) simp_all
  moreover have "0 \<le> dist3 (embed p) (embed q)" unfolding p q by simp
  ultimately show ?thesis by simp
qed

lemma ascending_Fin: "ascending (map Fin ds) \<longleftrightarrow> sorted ds"
  by (induction ds rule: induct_list012) (auto intro: order_trans)

lemma nearest_sorted: "sorted (map fst (nearest t x k))"
  unfolding nearest_def take_map[symmetric] by (rule sorted_wrt_take) simp

lemma nearest_length: "k \<le> length t \<Longrightarrow> length (nearest t x k) = k"
  by (simp add: nearest_def)

lemma nearest_chords: "set (map fst (nearest t x k)) \<subseteq> dist3 x ` set t"
proof -
  have "set (nearest t x k) \<subseteq> set (zip (map (dist3 x) t) [0..<length t])"
    unfolding nearest_def using set_take_subset[of k "sort_key fst (zip (map (dist3 x) t) [0..<length t])"]
    by simp
  then show ?thesis by (auto dest!: subsetD set_zip_leftD)
qed

lemma exhaustive_row_length: "length (exhaustive_row t x k) = k"
  by (simp add: exhaustive_row_def nearest_def)

lemma exhaustive_row_chords:
  "k \<le> length t \<Longrightarrow> map fst (exhaustive_row t x k) = map Fin (map fst (nearest t x k))"
  by (simp add: exhaustive_row_def nearest_length split_def o_def)

lemma exhaustive_rows_ascending:
  assumes "init exhaustive (Points ps) = Inr s" and "1 \<le> k" and "k \<le> length ps"
    and "query exhaustive s (Points qs) k eps = Inr (dist_2d, ind)" and "q < length qs"
    and "0 \<le> eps"
  shows "ascending (dist_2d ! q)"
proof -
  have s: "kdtree s = map embed ps" using assms(1) by (auto simp: init_def exhaustive_simps)
  let ?t = "map embed ps"
  let ?x = "embed (qs ! q)"
  let ?d3 = "map (\<lambda>x. map fst (exhaustive_row ?t x k)) (map embed qs)"
  let ?ind = "map (\<lambda>x. map snd (exhaustive_row ?t x k)) (map embed qs)"
  have k: "k \<le> length ?t" using assms(3) by simp
  have h1: "spherical_to_cartesian (Points qs) = Inr (map embed qs, map (\<lambda>p. 1) qs)" by simp
  have h2: "tree_query exhaustive (kdtree s) (map embed qs) k eps = Inr (?d3, ?ind)"
    using assms(2) by (simp add: exhaustive_simps s exhaustive_query_def)
  have h3: "shaped (length (map embed qs)) k ?d3"
    by (simp add: shaped_def list_all_iff exhaustive_row_length)
  have h5: "q < length (map embed qs)" using assms(5) by simp
  have row: "?d3 ! q = map Fin (map fst (nearest ?t ?x k))"
    using assms(5) by (simp add: exhaustive_row_chords[OF k])
  have "within_diameter 1 (Fin c)" if "c \<in> set (map fst (nearest ?t ?x k))" for c
  proof -
    from that nearest_chords[of ?t ?x k]
    have "c \<in> dist3 ?x ` set ?t" by blast
    then obtain p where "c = dist3 ?x (embed p)" by auto
    then show ?thesis by (simp only: chord_within_diameter)
  qed
  then have "list_all (within_diameter 1) (map Fin (map fst (nearest ?t ?x k)))"
    unfolding list_all_iff by auto
  then have h6: "list_all (within_diameter (map (\<lambda>p. 1) qs ! q)) (?d3 ! q)"
    using assms(5) row by simp
  have "ascending (map Fin (map fst (nearest ?t ?x k)))"
    unfolding ascending_Fin by (rule nearest_sorted)
  then have h7: "ascending (?d3 ! q)" using row by simp
  show ?thesis by (rule query_row_ascending[OF h1 h2 h3 assms(4) h5 h6 h7])
qed




lemma pi_ge_three: "3 \<le> pi"
proof -
  have "sin (pi / 6) \<le> pi / 6" by (rule sin_x_le_x) simp
  then show ?thesis by (simp add: sin_30)
qed

lemma chord_radius_below_diameter: "chord_radius (5 / 2) < 2"
proof -
  have "sin (5 / 4) < sin (pi / 2)"
    by (rule sin_monotone_2pi) (use pi_ge_three in simp_all)
  then show ?thesis by (simp add: chord_radius_def)
qed

section \<open>The k-nearest-neighbour query\<close>












section \<open>The radius queries\<close>

text \<open>
  C6. \<open>query_ball_tree\<close> resolves its argument: a Euclidean tree is used as it is, of
  another \<open>KDSphere\<close> the tree it already holds is used, and nothing is embedded again;
  anything else is taken as angular points, which are embedded and indexed by a new tree.
\<close>

theorem query_ball_tree_resolves_other:
  "query_ball_tree E self (OtherCKDTree t) r = Inr (tree_query_ball_tree E (kdtree self) t r)
   \<and> query_ball_tree E self (OtherKDTree t) r = Inr (tree_query_ball_tree E (kdtree self) t r)
   \<and> query_ball_tree E self (OtherKDSphere s) r =
        Inr (tree_query_ball_tree E (kdtree self) (kdtree s) r)
   \<and> query_ball_tree E self (OtherArray a) r =
        (case spherical_to_cartesian a of
           Inl e \<Rightarrow> Inl e
         | Inr (d3, rs) \<Rightarrow> Inr (tree_query_ball_tree E (kdtree self) (tree_build E d3) r))"
  by (simp add: query_ball_tree_def init_def split: sum.splits)

text \<open>
  C5. \<open>query_ball_point\<close> returns one flat list of indices when the at-least-2D shape of
  the input has first dimension 1, for a bare point and for a sequence of length 1 alike;
  for M \<ge> 2 query points it returns M lists, one per query point, in the order of the
  query points.
\<close>

theorem query_ball_point_shape:
  "query_ball_point E self (Point p) r =
     Inr (Flat (tree_query_ball_point E (kdtree self) (embed p) r))
   \<and> query_ball_point E self (Points [p]) r =
     Inr (Flat (tree_query_ball_point E (kdtree self) (embed p) r))
   \<and> (2 \<le> length ps \<longrightarrow>
        query_ball_point E self (Points ps) r =
          Inr (Nested (map (\<lambda>q. tree_query_ball_point E (kdtree self) (embed q) r) ps)))"
  by (simp add: query_ball_point_def o_def)

theorem query_ball_point_shape_witness:
  "2 \<le> length [(0::real, 0::real), (pi, 0)]
   \<and> query_ball_point exhaustive origin_index (Points [(0, 0), (pi, 0)]) 1 = Inr (Nested [[0], []])"
  using query_ball_point_shape[of exhaustive origin_index _ 1 "[(0, 0), (pi, 0)]"]
  by (simp add: exhaustive_eval)

text \<open>
  C4. The claim: for a sequence of length 1 the result is the neighbour list wrapped in a
  list of length 1, distinct from the flat list of a bare point; the docstring of the
  method promises the same, a list of lists for a list of pairs. The source tests
  \<^verbatim>\<open>np.atleast_2d(data).shape[0] == 1\<close> and returns \<^verbatim>\<open>results[0]\<close>: for the sequence
  [(0, 0)] the index over the point (0, 0) returns the flat list [0], not [[0]], the
  value it returns for the bare point (0, 0).
\<close>

theorem query_ball_point_singleton_unwrapped:
  "init exhaustive (Points [(0, 0)]) = Inr origin_index
   \<and> query_ball_point exhaustive origin_index (Points [(0, 0)]) 1 = Inr (Flat [0])
   \<and> query_ball_point exhaustive origin_index (Points [(0, 0)]) 1 \<noteq> Inr (Nested [[0]])
   \<and> query_ball_point exhaustive origin_index (Point (0, 0)) 1 = Inr (Flat [0])"
  by (simp add: init_origin query_ball_point_def exhaustive_eval)

section \<open>The instance\<close>

text \<open>
  C7. An index built by \<^verbatim>\<open>__init__\<close> stores as many embedded points as input points, and
  its tree is built over the embedded points. After any sequence of calls of \<open>query\<close>,
  \<open>query_ball_tree\<close> and \<open>query_ball_point\<close>, run statement by statement, the instance is
  the one that was built: input points, embedded points and tree are what they were, and
  the two counts still agree.
\<close>

theorem index_counts_agree:
  assumes "init_stmt E d s0 = (Inr (), s)"
  shows "data s = d \<and> length (data3d s) = shape0 (data s)
     \<and> kdtree s = tree_build E (data3d s)
     \<and> snd (run E cs s) = s
     \<and> length (data3d (snd (run E cs s))) = shape0 (data (snd (run E cs s)))"
proof -
  have "init E d = Inr s" by (rule init_stmt_init[OF assms])
  then have "data s = d \<and> length (data3d s) = shape0 (data s) \<and> kdtree s = tree_build E (data3d s)"
    by (cases d) (auto simp: init_def)
  then show ?thesis by (simp add: run_instance)
qed

theorem index_counts_agree_witness:
  "init_stmt exhaustive (Points [(0, 0), (pi, 0)]) empty_index = (Inr (), antipodes_index)
   \<and> length (data3d antipodes_index) = shape0 (data antipodes_index)
   \<and> run exhaustive
        [CallQuery (Points [(0, 0)]) 2 0, CallQueryBallPoint (Point (0, 0)) 1,
         CallQueryBallTree (OtherKDSphere origin_index) 1] antipodes_index =
      ([RetQuery (Inr ([[Fin 0, Fin pi]], [[0, 1]])), RetBallPoint (Inr (Flat [0])),
        RetBallTree (Inr [[0], []])], antipodes_index)"
proof -
  have h: "init_stmt exhaustive (Points [(0, 0), (pi, 0)]) empty_index = (Inr (), antipodes_index)"
    by (simp add: init_stmt_run antipodes_index_def exhaustive_simps)
  have r: "fst (run exhaustive
        [CallQuery (Points [(0, 0)]) 2 0, CallQueryBallPoint (Point (0, 0)) 1,
         CallQueryBallTree (OtherKDSphere origin_index) 1] antipodes_index) =
      [RetQuery (Inr ([[Fin 0, Fin pi]], [[0, 1]])), RetBallPoint (Inr (Flat [0])),
        RetBallTree (Inr [[0], []])]"
    by (simp add: query_stmt_run query_ball_tree_stmt_run query_ball_point_stmt_run
          query_eval query_ball_point_def query_ball_tree_def exhaustive_eval split: prod.splits)
  show ?thesis
    using h r index_counts_agree[OF h, of "[CallQuery (Points [(0, 0)]) 2 0,
         CallQueryBallPoint (Point (0, 0)) 1,
         CallQueryBallTree (OtherKDSphere origin_index) 1]"]
    by (auto simp: prod_eq_iff)
qed

section \<open>The radius handed to the Euclidean structure\<close>

text \<open>
  C1. The claim: \<open>query_ball_tree\<close> and \<open>query_ball_point\<close> convert the angular radius r
  to the chord radius 2 sin(r / 2) before they ask the Euclidean structure, so that exactly
  the points at great-circle distance at most r are returned. The source hands r over as
  it is. At r = 5/2 the index over the point (0, 0) returns that point for the antipode
  (\<pi>, 0): the chord is 2, the great-circle distance is \<pi>, above 5/2. With the
  conversion the result is empty.
\<close>

theorem ball_queries_take_angle_as_chord:
  "init exhaustive (Points [(0, 0)]) = Inr origin_index
   \<and> query_ball_point exhaustive origin_index (Point (pi, 0)) (5 / 2) = Inr (Flat [0])
   \<and> query_ball_tree exhaustive origin_index (OtherArray (Points [(pi, 0)])) (5 / 2) = Inr [[0]]
   \<and> 5 / 2 < great_circle (0, 0) (pi, 0)
   \<and> query_ball_point_spec exhaustive origin_index (Point (pi, 0)) (5 / 2) = Inr (Flat [])
   \<and> query_ball_tree_spec exhaustive origin_index (OtherArray (Points [(pi, 0)])) (5 / 2) = Inr [[]]"
proof -
  have a: "query_ball_point exhaustive origin_index (Point (pi, 0)) (5 / 2) = Inr (Flat [0])"
    by (simp add: query_ball_point_def exhaustive_eval)
  have b: "query_ball_tree exhaustive origin_index (OtherArray (Points [(pi, 0)])) (5 / 2) = Inr [[0]]"
    by (simp add: query_ball_tree_def init_def exhaustive_eval)
  have c: "5 / 2 < great_circle (0, 0) (pi, 0)"
    using pi_ge_three by (simp add: great_circle_def)
  have d: "query_ball_point_spec exhaustive origin_index (Point (pi, 0)) (5 / 2) = Inr (Flat [])"
    using chord_radius_below_diameter
    by (simp add: query_ball_point_spec_def query_ball_point_def exhaustive_eval)
  have e: "query_ball_tree_spec exhaustive origin_index (OtherArray (Points [(pi, 0)])) (5 / 2) = Inr [[]]"
    using chord_radius_below_diameter
    by (simp add: query_ball_tree_spec_def query_ball_tree_def init_def exhaustive_eval)
  from init_origin a b c d e show ?thesis by blast
qed

section \<open>The empty index\<close>




end
